theory Spec2Isabelle
  imports Complex_Main
begin

section \<open>Seller Hub: fees, payouts, market prices and the admin actions\<close>

text \<open>
  The development follows the TypeScript sources of the Seller Hub: the fee module
  (\<^verbatim>\<open>getFees\<close>, \<^verbatim>\<open>calculatePayout\<close>), the seller dashboard, the add-listing
  and edit-listing dialogs, the admin dashboard and the profile page.

  Conventions of the embedding:
  \<^item> a JavaScript \<^verbatim>\<open>number\<close> is a \<^typ>\<open>real\<close>; the value \<^verbatim>\<open>NaN\<close> that
    \<^verbatim>\<open>parseFloat\<close> can return is \<^term>\<open>None\<close> of a \<^typ>\<open>real option\<close>. Rounding of
    IEEE doubles and the infinities are outside the model;
  \<^item> \<^verbatim>\<open>null\<close> and \<^verbatim>\<open>undefined\<close> are \<^term>\<open>None\<close>;
  \<^item> the reply \<^verbatim>\<open>{ data, error }\<close> of the hosted backend is a value of type
    \<open>response\<close>, and a rejected promise is its constructor \<open>Rejected\<close>;
  \<^item> React state and module variables are fields of a record that each handler takes
    and returns; where a property depends on it, the record also holds the requests
    sent to the backend and the errors written with \<^verbatim>\<open>console.error\<close>;
  \<^item> text shown to the user that is not ASCII is a constructor of a datatype;
  \<^item> record fields carry a prefix where interfaces of the source share field names.
\<close>

subsection \<open>Backend replies\<close>

record PostgrestError =
  code :: string
  message :: string

datatype 'a response =
    Response "'a option" "PostgrestError option"
  | Rejected PostgrestError

text \<open>The field \<^verbatim>\<open>data\<close> of a reply; a rejected promise carries none.\<close>

fun reply_data :: "'a response \<Rightarrow> 'a option" where
  "reply_data (Response d err) = d"
| "reply_data (Rejected e) = None"

text \<open>The code of the reply to \<^verbatim>\<open>.single()\<close> when the query yields no row.\<close>

definition PGRST116 :: string where
  "PGRST116 = ''PGRST116''"

subsection \<open>The fee module\<close>

record AdminSettings =
  fee_percent :: real
  fee_fixed :: real

text \<open>
  \<^verbatim>\<open>export function calculatePayout(price, feePercent, feeFixed) {
    return price * (1 - feePercent) - feeFixed; }\<close>
\<close>

definition calculatePayout :: "real \<Rightarrow> real \<Rightarrow> real \<Rightarrow> real" where
  "calculatePayout price feePercent feeFixed = price * (1 - feePercent) - feeFixed"

text \<open>
  The payout in the words of the specification's glossary: the amount left after the
  platform fees, a percentage of the price and a fixed amount, are deducted from the
  listing price.
\<close>

definition payout_formula :: "real \<Rightarrow> real \<Rightarrow> real \<Rightarrow> real" where
  "payout_formula price feePercent feeFixed = price - price * feePercent - feeFixed"

text \<open>
  The module variable \<^verbatim>\<open>cachedSettings\<close>, together with two observations of the
  module's effects: how many \<^verbatim>\<open>admin_settings\<close> queries were sent, and the errors
  written with \<^verbatim>\<open>console.error\<close>.
\<close>

record fees_module =
  cachedSettings :: "AdminSettings option"
  queries :: nat
  fees_console :: "PostgrestError list"

text \<open>
  \<^verbatim>\<open>getFees\<close>: the first argument is the reply the backend gives to the query
  \<^verbatim>\<open>from('admin_settings').select('fee_percent, fee_fixed').single()\<close> if it is sent.
  A cached object is returned at once; otherwise the query is sent, an error in the
  reply is thrown and caught (as a rejected promise is), a row is copied into the cache,
  and a reply with neither yields the default.
\<close>

definition getFees :: "AdminSettings response \<Rightarrow> fees_module \<Rightarrow> AdminSettings \<times> fees_module" where
  "getFees reply m =
     (case cachedSettings m of
        Some s \<Rightarrow> (s, m)
      | None \<Rightarrow>
          (let m1 = m\<lparr>queries := queries m + 1\<rparr> in
           case reply of
             Rejected e \<Rightarrow>
               (\<lparr>fee_percent = 0.2, fee_fixed = 5\<rparr>, m1\<lparr>fees_console := fees_console m1 @ [e]\<rparr>)
           | Response d err \<Rightarrow>
               (case err of
                  Some e \<Rightarrow>
                    (\<lparr>fee_percent = 0.2, fee_fixed = 5\<rparr>,
                     m1\<lparr>fees_console := fees_console m1 @ [e]\<rparr>)
                | None \<Rightarrow>
                    (case d of
                       Some row \<Rightarrow>
                         (let s = \<lparr>fee_percent = fee_percent row, fee_fixed = fee_fixed row\<rparr>
                          in (s, m1\<lparr>cachedSettings := Some s\<rparr>))
                     | None \<Rightarrow> (\<lparr>fee_percent = 0.2, fee_fixed = 5\<rparr>, m1)))))"

text \<open>The replies on which the fetch "errors or returns no row".\<close>

fun fetch_failed :: "'a response \<Rightarrow> bool" where
  "fetch_failed (Rejected e) = True"
| "fetch_failed (Response d (Some e)) = True"
| "fetch_failed (Response None None) = True"
| "fetch_failed (Response (Some row) None) = False"

subsection \<open>The catalogue of size prices and the market-price query\<close>

record ProductSize =
  ps_id :: string
  ps_product_id :: string
  ps_size :: string
  ps_price :: real
  ps_status :: string

text \<open>
  The hosted backend is not part of the repository. Its reply to the query both screens
  send,
  \<^verbatim>\<open>from('product_sizes').select('price').eq('product_id', p).eq('size', s)
    .eq('status', 'Skladom').order('price', { ascending: true }).limit(1).single()\<close>,
  is modelled on the table as a list of rows: filter, stable sort by price, keep one row,
  and \<^verbatim>\<open>.single()\<close> answers with the row when there is exactly one and with the error
  \<^verbatim>\<open>PGRST116\<close> otherwise. The selected object \<^verbatim>\<open>{ price }\<close> is its price.
\<close>

definition single :: "'a list \<Rightarrow> 'a response" where
  "single rows =
     (case rows of
        [r] \<Rightarrow> Response (Some r) None
      | _ \<Rightarrow> Response None (Some \<lparr>code = PGRST116, message = ''no single row''\<rparr>))"

definition in_stock_rows :: "ProductSize list \<Rightarrow> string \<Rightarrow> string \<Rightarrow> ProductSize list" where
  "in_stock_rows table pid sz =
     filter (\<lambda>r. ps_product_id r = pid \<and> ps_size r = sz \<and> ps_status r = ''Skladom'') table"

definition market_price_query :: "ProductSize list \<Rightarrow> string \<Rightarrow> string \<Rightarrow> real response" where
  "market_price_query table pid sz =
     single (map ps_price (take 1 (sort_key ps_price (in_stock_rows table pid sz))))"

subsection \<open>Dashboard: loading the listings and their market prices\<close>

record Product =
  dp_id :: string
  dp_name :: string
  dp_size :: string
  dp_price :: real
  dp_image_url :: "string option"
  dp_original_price :: "real option"
  dp_product_id :: string
  dp_user_id :: string
  dp_payout :: real
  dp_sku :: "string option"

datatype dashboard_error = LoadProductsFailed

record dashboard =
  d_products :: "Product list"
  d_marketPrices :: "string \<rightharpoonup> real"
  d_error :: "dashboard_error option"

text \<open>The key of \<^verbatim>\<open>pricesMap\<close>: the template string \<^verbatim>\<open>`${product_id}-${size}`\<close>.\<close>

definition price_key :: "string \<Rightarrow> string \<Rightarrow> string" where
  "price_key pid sz = pid @ ''-'' @ sz"

text \<open>
  The loop of \<^verbatim>\<open>fetchProducts\<close> over \<^verbatim>\<open>validProducts\<close>. The backend is a function
  from the product id and size of the query to its reply. Only \<^verbatim>\<open>data\<close> of the reply is
  read; a rejected promise is caught inside the loop and leaves the map as it is.
\<close>

fun fetchMarketPrices ::
  "(string \<Rightarrow> string \<Rightarrow> real response) \<Rightarrow> Product list \<Rightarrow> (string \<rightharpoonup> real) \<Rightarrow> (string \<rightharpoonup> real)" where
  "fetchMarketPrices backend [] pricesMap = pricesMap"
| "fetchMarketPrices backend (product # rest) pricesMap =
     fetchMarketPrices backend rest
       (case backend (dp_product_id product) (dp_size product) of
          Response (Some price) err \<Rightarrow>
            pricesMap(price_key (dp_product_id product) (dp_size product) \<mapsto> price)
        | Response None err \<Rightarrow> pricesMap
        | Rejected e \<Rightarrow> pricesMap)"

text \<open>
  \<^verbatim>\<open>fetchProducts\<close>: the first argument is the reply to the \<^verbatim>\<open>user_products\<close> query.
\<close>

definition fetchProducts ::
  "Product list response \<Rightarrow> (string \<Rightarrow> string \<Rightarrow> real response) \<Rightarrow> dashboard \<Rightarrow> dashboard" where
  "fetchProducts reply backend st =
     (case reply of
        Rejected e \<Rightarrow> st\<lparr>d_error := Some LoadProductsFailed\<rparr>
      | Response d err \<Rightarrow>
          (case err of
             Some e \<Rightarrow> st\<lparr>d_error := Some LoadProductsFailed\<rparr>
           | None \<Rightarrow>
               (case d of
                  Some validProducts \<Rightarrow>
                    st\<lparr>d_products := validProducts,
                       d_marketPrices := fetchMarketPrices backend validProducts Map.empty\<rparr>
                | None \<Rightarrow> st\<lparr>d_products := []\<rparr>)))"

text \<open>The market price a card of the dashboard uses for a listing.\<close>

definition currentMarketPrice :: "dashboard \<Rightarrow> Product \<Rightarrow> real option" where
  "currentMarketPrice st product = d_marketPrices st (price_key (dp_product_id product) (dp_size product))"

subsection \<open>Dashboard: the price indicator of a card\<close>

datatype indicator = NoIndicator | GreenCircle | RedCircle

text \<open>
  \<^verbatim>\<open>priceStatus\<close> is empty, or the text \<^verbatim>\<open>(-d)\<close> or \<^verbatim>\<open>(+d)\<close> with the
  difference \<open>d\<close> printed with two decimals; the model keeps the number.
\<close>

datatype price_status = NoStatus | Minus real | Plus real

record price_view =
  priceColor :: string
  priceStatus :: price_status
  priceIndicator :: indicator

text \<open>
  The body of the callback that renders a card, from the price of the listing and the
  entry of \<^verbatim>\<open>marketPrices\<close>. The test \<^verbatim>\<open>if (currentMarketPrice)\<close> fails for a missing
  entry and for the number 0.
\<close>

definition dashboard_price_view :: "real \<Rightarrow> real option \<Rightarrow> price_view" where
  "dashboard_price_view price market =
     (case market of
        None \<Rightarrow>
          \<lparr>priceColor = ''text-gray-900'', priceStatus = NoStatus, priceIndicator = NoIndicator\<rparr>
      | Some m \<Rightarrow>
          if m \<noteq> 0 then
            (if price \<le> m then
               \<lparr>priceColor = ''text-green-600'',
                priceStatus = (if price < m then Minus (m - price) else NoStatus),
                priceIndicator = GreenCircle\<rparr>
             else
               \<lparr>priceColor = ''text-red-600'', priceStatus = Plus (price - m),
                priceIndicator = RedCircle\<rparr>)
          else
            \<lparr>priceColor = ''text-gray-900'', priceStatus = NoStatus, priceIndicator = NoIndicator\<rparr>)"

subsection \<open>The add-listing dialog\<close>

record CatalogProduct =
  cp_id :: string
  cp_name :: string
  cp_image_url :: string
  cp_sku :: string

text \<open>The object the dialog inserts into \<^verbatim>\<open>user_products\<close>.\<close>

record NewUserProduct =
  np_id :: string
  np_user_id :: string
  np_product_id :: string
  np_name :: string
  np_size :: string
  np_price :: real
  np_image_url :: string
  np_original_price :: real
  np_payout :: real
  np_sku :: string

text \<open>
  \<^verbatim>\<open>recommendedPrice = sizes.find((s) => s.size === selectedSize)?.price || 0\<close>.
\<close>

definition recommendedPrice :: "ProductSize list \<Rightarrow> string \<Rightarrow> real" where
  "recommendedPrice sizes selectedSize =
     (case find (\<lambda>s. ps_size s = selectedSize) sizes of
        None \<Rightarrow> 0
      | Some selectedSizeData \<Rightarrow> (if ps_price selectedSizeData \<noteq> 0 then ps_price selectedSizeData else 0))"

text \<open>
  \<^verbatim>\<open>computedPayout\<close>: the payout of the entered price, or \<^verbatim>\<open>null\<close> when the entry
  does not parse. The argument is \<^verbatim>\<open>parseFloat(newPrice)\<close>.
\<close>

definition computedPayout :: "real option \<Rightarrow> AdminSettings \<Rightarrow> real option" where
  "computedPayout numericNewPrice fees =
     (case numericNewPrice of
        Some p \<Rightarrow> Some (calculatePayout p (fee_percent fees) (fee_fixed fees))
      | None \<Rightarrow> None)"

text \<open>
  The message under the price field: none, the warning that the price is above the
  lowest price, or the note that the entered price becomes the new lowest price.
\<close>

datatype price_message = NoMessage | HigherThanLowest | NewLowest real

datatype price_icon = NoIcon | ExclamationTriangleIcon | CheckIcon

record modal_view =
  m_priceColor :: string
  priceMessage :: price_message
  priceIcon :: price_icon

definition modal_price_view :: "real option \<Rightarrow> real \<Rightarrow> modal_view" where
  "modal_price_view numericNewPrice recommended =
     (case numericNewPrice of
        None \<Rightarrow> \<lparr>m_priceColor = ''text-gray-700'', priceMessage = NoMessage, priceIcon = NoIcon\<rparr>
      | Some p \<Rightarrow>
          if p > 0 then
            (if p > recommended then
               \<lparr>m_priceColor = ''text-red-600'', priceMessage = HigherThanLowest,
                priceIcon = ExclamationTriangleIcon\<rparr>
             else if p < recommended then
               \<lparr>m_priceColor = ''text-green-600'', priceMessage = NewLowest p, priceIcon = CheckIcon\<rparr>
             else
               \<lparr>m_priceColor = ''text-gray-700'', priceMessage = NoMessage, priceIcon = NoIcon\<rparr>)
          else \<lparr>m_priceColor = ''text-gray-700'', priceMessage = NoMessage, priceIcon = NoIcon\<rparr>)"

text \<open>
  The error shown by the dialog: the fixed text asking for a product, a size and a valid
  price, or the message of a caught error.
\<close>

datatype form_error = InvalidForm | ErrorMessage string

record add_modal =
  selectedProduct :: "CatalogProduct option"
  selectedSize :: string
  newPrice :: string
  m_loading :: bool
  m_error :: "form_error option"

text \<open>
  What \<^verbatim>\<open>handleSubmit\<close> acts on: the state of the dialog, the table
  \<^verbatim>\<open>user_products\<close>, the insert requests sent to the backend, the arguments passed to
  \<^verbatim>\<open>onProductAdded\<close>, and whether \<^verbatim>\<open>onClose\<close> was called.
\<close>

record add_world =
  modal :: add_modal
  user_products :: "NewUserProduct list"
  inserts :: "NewUserProduct list"
  added :: "NewUserProduct list"
  closed :: bool

text \<open>
  \<^verbatim>\<open>handleSubmit\<close> of the add-listing dialog. Arguments: \<^verbatim>\<open>parseFloat(newPrice)\<close>, the
  fees and sizes held by the dialog, the id of the signed-in user (if any), the fresh
  uuid, and the error of the backend's reply to the insert (if any).
\<close>

definition handleSubmit ::
  "real option \<Rightarrow> AdminSettings \<Rightarrow> ProductSize list \<Rightarrow> string option \<Rightarrow> string
     \<Rightarrow> PostgrestError option \<Rightarrow> add_world \<Rightarrow> add_world" where
  "handleSubmit numericNewPrice fees sizes user newProductId insertError w =
     (let m = modal w;
          invalid = w\<lparr>modal := m\<lparr>m_error := Some InvalidForm\<rparr>\<rparr>
      in
      case selectedProduct m of
        None \<Rightarrow> invalid
      | Some product \<Rightarrow>
          if selectedSize m = [] then invalid
          else
            (case numericNewPrice of
               None \<Rightarrow> invalid
             | Some price \<Rightarrow>
                 if price \<le> 0 then invalid
                 else
                   (case user of
                      None \<Rightarrow>
                        w\<lparr>modal := m\<lparr>m_loading := False,
                                      m_error := Some (ErrorMessage ''User not authenticated'')\<rparr>\<rparr>
                    | Some uid \<Rightarrow>
                        (let row =
                               \<lparr>np_id = newProductId, np_user_id = uid, np_product_id = cp_id product,
                                np_name = cp_name product, np_size = selectedSize m, np_price = price,
                                np_image_url = cp_image_url product,
                                np_original_price = recommendedPrice sizes (selectedSize m),
                                np_payout =
                                  (case computedPayout numericNewPrice fees of
                                     Some payout \<Rightarrow> payout | None \<Rightarrow> 0),
                                np_sku = cp_sku product\<rparr>;
                             w1 = w\<lparr>inserts := inserts w @ [row]\<rparr>
                         in
                         case insertError of
                           Some e \<Rightarrow>
                             w1\<lparr>modal := m\<lparr>m_loading := False,
                                            m_error := Some (ErrorMessage (message e))\<rparr>\<rparr>
                         | None \<Rightarrow>
                             w1\<lparr>user_products := user_products w1 @ [row],
                                added := added w1 @ [row],
                                closed := True,
                                modal := m\<lparr>selectedProduct := None, selectedSize := [],
                                            newPrice := [], m_loading := False,
                                            m_error := None\<rparr>\<rparr>))))"

text \<open>The condition under which the claim allows an insert.\<close>

definition submittable :: "add_modal \<Rightarrow> real option \<Rightarrow> bool" where
  "submittable m numericNewPrice =
     (selectedProduct m \<noteq> None \<and> selectedSize m \<noteq> [] \<and>
      (case numericNewPrice of None \<Rightarrow> False | Some price \<Rightarrow> 0 < price))"

subsection \<open>The edit-listing dialog: its market price\<close>

text \<open>
  \<^verbatim>\<open>fetchCurrentMarketPrice\<close> on the state variable \<^verbatim>\<open>currentMarketPrice\<close>: an
  error in the reply is thrown and caught, a row sets the state, and nothing else
  writes it.
\<close>

definition fetchCurrentMarketPrice :: "real response \<Rightarrow> real option \<Rightarrow> real option" where
  "fetchCurrentMarketPrice reply current =
     (case reply of
        Rejected e \<Rightarrow> current
      | Response d err \<Rightarrow>
          (case err of
             Some e \<Rightarrow> current
           | None \<Rightarrow> (case d of Some price \<Rightarrow> Some price | None \<Rightarrow> current)))"

subsection \<open>The admin dashboard\<close>

record UserProduct =
  up_id :: string
  up_user_id :: string
  up_product_id :: string
  up_name :: string
  up_size :: string
  up_price :: real
  up_image_url :: "string option"
  up_payout :: real
  up_user_email :: "string option"

text \<open>The object \<^verbatim>\<open>handleCreateSale\<close> inserts into \<^verbatim>\<open>user_sales\<close>.\<close>

record UserSale =
  us_user_id :: string
  us_product_id :: string
  us_name :: string
  us_size :: string
  us_price :: real
  us_image_url :: "string option"
  us_payout :: real
  us_status :: string
  us_original_product_id :: string

record admin_page =
  a_loading :: bool
  isAdmin :: bool
  a_products :: "UserProduct list"
  a_error :: "string option"
  successMessage :: "string option"
  processingId :: "string option"
  a_console :: "PostgrestError list"
  a_navigated :: "string option"
  fetchUserProducts_called :: bool

text \<open>
  \<^verbatim>\<open>checkAdminStatus\<close>: the first argument is the id of the signed-in user (if any), the
  second the reply to \<^verbatim>\<open>from('admin_users').select('id').eq('id', user.id).single()\<close>.
  \<^verbatim>\<open>fetchUserProducts()\<close> is started and not awaited; the model records the call.
\<close>

definition checkAdminStatus :: "string option \<Rightarrow> string response \<Rightarrow> admin_page \<Rightarrow> admin_page" where
  "checkAdminStatus user reply st =
     (case user of
        None \<Rightarrow> st\<lparr>a_navigated := Some ''/'', a_loading := False\<rparr>
      | Some uid \<Rightarrow>
          (case reply of
             Rejected e \<Rightarrow>
               st\<lparr>a_console := a_console st @ [e],
                  a_error := Some ''An error occurred while checking admin status.'',
                  a_loading := False\<rparr>
           | Response adminData adminError \<Rightarrow>
               (case adminError of
                  Some e \<Rightarrow>
                    if code e \<noteq> PGRST116 then
                      st\<lparr>a_console := a_console st @ [e], isAdmin := False, a_loading := False\<rparr>
                    else
                      (case adminData of
                         Some row \<Rightarrow>
                           st\<lparr>isAdmin := True, fetchUserProducts_called := True, a_loading := False\<rparr>
                       | None \<Rightarrow>
                           st\<lparr>isAdmin := False,
                              a_error := Some ''You do not have admin privileges.'',
                              a_loading := False\<rparr>)
                | None \<Rightarrow>
                    (case adminData of
                       Some row \<Rightarrow>
                         st\<lparr>isAdmin := True, fetchUserProducts_called := True, a_loading := False\<rparr>
                     | None \<Rightarrow>
                         st\<lparr>isAdmin := False,
                            a_error := Some ''You do not have admin privileges.'',
                            a_loading := False\<rparr>))))"

text \<open>
  The two tables \<^verbatim>\<open>handleCreateSale\<close> writes, and the requests it sends, in order.
\<close>

datatype db_request = InsertSale UserSale | DeleteProduct string

record admin_db =
  user_sales :: "UserSale list"
  db_user_products :: "UserProduct list"
  requests :: "db_request list"

text \<open>
  \<^verbatim>\<open>handleCreateSale\<close>: the second and third arguments are the errors of the backend's
  replies to the insert and to the delete (if any). A request answered with an error
  leaves its table as it was; an insert without error appends the row, a delete without
  error removes the rows with the id.
\<close>

definition handleCreateSale ::
  "UserProduct \<Rightarrow> PostgrestError option \<Rightarrow> PostgrestError option
     \<Rightarrow> admin_db \<times> admin_page \<Rightarrow> admin_db \<times> admin_page" where
  "handleCreateSale product saleError deleteError w =
     (let db = fst w;
          st = (snd w)\<lparr>processingId := Some (up_id product), a_error := None, successMessage := None\<rparr>;
          sale =
            \<lparr>us_user_id = up_user_id product, us_product_id = up_product_id product,
             us_name = up_name product, us_size = up_size product, us_price = up_price product,
             us_image_url = up_image_url product, us_payout = up_payout product,
             us_status = ''completed'', us_original_product_id = up_id product\<rparr>;
          db1 = db\<lparr>requests := requests db @ [InsertSale sale]\<rparr>
      in
      case saleError of
        Some e \<Rightarrow>
          (db1,
           st\<lparr>a_console := a_console st @ [e],
              a_error := Some (''Error creating sale: '' @ message e),
              processingId := None\<rparr>)
      | None \<Rightarrow>
          (let db2 = db1\<lparr>user_sales := user_sales db1 @ [sale],
                          requests := requests db1 @ [DeleteProduct (up_id product)]\<rparr>
           in
           case deleteError of
             Some e \<Rightarrow>
               (db2,
                st\<lparr>a_console := a_console st @ [e],
                   a_error := Some (''Error creating sale: '' @ message e),
                   processingId := None\<rparr>)
           | None \<Rightarrow>
               (db2\<lparr>db_user_products :=
                       filter (\<lambda>p. up_id p \<noteq> up_id product) (db_user_products db2)\<rparr>,
                st\<lparr>a_products := filter (\<lambda>p. up_id p \<noteq> up_id product) (a_products st),
                   successMessage := Some (''Sale created successfully for '' @ up_name product),
                   processingId := None\<rparr>)))"

subsection \<open>The profile page\<close>

record AuthUser =
  user_id :: string
  user_email :: "string option"

text \<open>A row of \<^verbatim>\<open>profiles\<close>; a column can be null.\<close>

record ProfileRow =
  pr_first_name :: "string option"
  pr_last_name :: "string option"
  pr_ico :: "string option"
  pr_address :: "string option"
  pr_popisne_cislo :: "string option"
  pr_psc :: "string option"
  pr_mesto :: "string option"
  pr_krajina :: "string option"
  pr_email :: "string option"
  pr_telephone :: "string option"
  pr_iban :: "string option"

text \<open>
  \<^verbatim>\<open>IProfile\<close>. The field \<^verbatim>\<open>email\<close> can hold \<^verbatim>\<open>undefined\<close> at run time (from
  \<^verbatim>\<open>profileData.email || user.email\<close>), hence the option.
\<close>

record IProfile =
  first_name :: string
  last_name :: string
  ico :: string
  address :: string
  popisne_cislo :: string
  psc :: string
  mesto :: string
  krajina :: string
  email :: "string option"
  telephone :: string
  iban :: string

text \<open>The operator \<^verbatim>\<open>||\<close> on a string that can be null: null and the empty string are falsy.\<close>

definition or_else :: "string option \<Rightarrow> string \<Rightarrow> string" where
  "or_else v d = (case v of None \<Rightarrow> d | Some s \<Rightarrow> if s = [] then d else s)"

record profile_page =
  p_loading :: bool
  p_user :: "AuthUser option"
  p_email :: string
  profile :: IProfile
  p_console :: "PostgrestError list"
  p_navigated :: "string option"

text \<open>The initial value of the state \<^verbatim>\<open>profile\<close>.\<close>

definition initial_profile :: IProfile where
  "initial_profile =
     \<lparr>first_name = [], last_name = [], ico = [], address = [], popisne_cislo = [], psc = [],
      mesto = [], krajina = ''Slovensko'', email = Some [], telephone = [], iban = []\<rparr>"

text \<open>
  \<^verbatim>\<open>getProfile\<close>: the second argument is the reply to
  \<^verbatim>\<open>from('profiles').select('*').eq('id', user.id).single()\<close>.
\<close>

definition getProfile :: "AuthUser option \<Rightarrow> ProfileRow response \<Rightarrow> profile_page \<Rightarrow> profile_page" where
  "getProfile user reply st =
     (case user of
        None \<Rightarrow> st\<lparr>p_navigated := Some ''/'', p_loading := False\<rparr>
      | Some u \<Rightarrow>
          (let st1 = st\<lparr>p_user := Some u, p_email := or_else (user_email u) []\<rparr> in
           case reply of
             Rejected e \<Rightarrow> st1\<lparr>p_console := p_console st1 @ [e], p_loading := False\<rparr>
           | Response profileData profileError \<Rightarrow>
               (let st2 =
                      (case profileData of
                         Some row \<Rightarrow>
                           st1\<lparr>profile :=
                                 \<lparr>first_name = or_else (pr_first_name row) [],
                                  last_name = or_else (pr_last_name row) [],
                                  ico = or_else (pr_ico row) [],
                                  address = or_else (pr_address row) [],
                                  popisne_cislo = or_else (pr_popisne_cislo row) [],
                                  psc = or_else (pr_psc row) [],
                                  mesto = or_else (pr_mesto row) [],
                                  krajina = or_else (pr_krajina row) ''Slovensko'',
                                  email =
                                    (case pr_email row of
                                       None \<Rightarrow> user_email u
                                     | Some s \<Rightarrow> if s = [] then user_email u else Some s),
                                  telephone = or_else (pr_telephone row) [],
                                  iban = or_else (pr_iban row) []\<rparr>\<rparr>
                       | None \<Rightarrow>
                           st1\<lparr>profile := (profile st1)\<lparr>email := Some (or_else (user_email u) [])\<rparr>\<rparr>);
                    st3 =
                      (case profileError of
                         Some e \<Rightarrow>
                           if code e \<noteq> PGRST116 then st2\<lparr>p_console := p_console st2 @ [e]\<rparr>
                           else st2
                       | None \<Rightarrow> st2)
                in st3\<lparr>p_loading := False\<rparr>)))"

subsection \<open>Concrete states used in the examples\<close>

text \<open>The fee module of a fresh process: nothing cached, no query sent, nothing logged.\<close>

definition no_settings :: fees_module where
  "no_settings = \<lparr>cachedSettings = None, queries = 0, fees_console = []\<rparr>"

text \<open>A listing as the admin dashboard holds it, and the page and tables around it.\<close>

definition listing_A :: UserProduct where
  "listing_A =
     \<lparr>up_id = ''listing-1'', up_user_id = ''seller-1'', up_product_id = ''nike-air-max-90'',
      up_name = ''Nike Air Max 90'', up_size = ''42'', up_price = 130, up_image_url = None,
      up_payout = 99, up_user_email = Some ''seller@example.com''\<rparr>"

definition admin_page0 :: admin_page where
  "admin_page0 =
     \<lparr>a_loading = False, isAdmin = True, a_products = [listing_A], a_error = None,
      successMessage = None, processingId = None, a_console = [], a_navigated = None,
      fetchUserProducts_called = True\<rparr>"

definition admin_db0 :: admin_db where
  "admin_db0 = \<lparr>user_sales = [], db_user_products = [listing_A], requests = []\<rparr>"

text \<open>The admin dashboard and the profile page as they are mounted, and a signed-in user.\<close>

definition admin_page_loading :: admin_page where
  "admin_page_loading =
     \<lparr>a_loading = True, isAdmin = False, a_products = [], a_error = None,
      successMessage = None, processingId = None, a_console = [], a_navigated = None,
      fetchUserProducts_called = False\<rparr>"

definition profile_page_loading :: profile_page where
  "profile_page_loading =
     \<lparr>p_loading = True, p_user = None, p_email = [], profile = initial_profile,
      p_console = [], p_navigated = None\<rparr>"

definition seller :: AuthUser where
  "seller = \<lparr>user_id = ''seller-1'', user_email = Some ''seller@example.com''\<rparr>"

text \<open>A catalogue product with two sizes in stock, and the add-listing dialog on it.\<close>

definition air_max :: CatalogProduct where
  "air_max =
     \<lparr>cp_id = ''nike-air-max-90'', cp_name = ''Nike Air Max 90'',
      cp_image_url = ''https://example.com/air-max.jpeg'', cp_sku = ''NAM90-003''\<rparr>"

definition air_max_sizes :: "ProductSize list" where
  "air_max_sizes =
     [\<lparr>ps_id = ''s-41'', ps_product_id = ''nike-air-max-90'', ps_size = ''41'', ps_price = 125,
       ps_status = ''Skladom''\<rparr>,
      \<lparr>ps_id = ''s-42'', ps_product_id = ''nike-air-max-90'', ps_size = ''42'', ps_price = 130,
       ps_status = ''Skladom''\<rparr>]"

definition add_world0 :: "string \<Rightarrow> add_world" where
  "add_world0 sz =
     \<lparr>modal = \<lparr>selectedProduct = Some air_max, selectedSize = sz, newPrice = [],
               m_loading = False, m_error = None\<rparr>,
      user_products = [], inserts = [], added = [], closed = False\<rparr>"

text \<open>The status "sold out" of the catalogue; its last letter is two bytes in UTF-8.\<close>

definition Vypredane :: string where
  "Vypredane = ''Vypredan'' @ [CHR 0xC3, CHR 0xA9]"

text \<open>
  Two catalogues. In the first, the product \<^verbatim>\<open>jordan\<close> has the size \<^verbatim>\<open>1-42\<close> in
  stock and the product \<^verbatim>\<open>jordan-1\<close> has its size \<^verbatim>\<open>42\<close> sold out. In the second,
  one product has the size 42 in stock and the size 43 sold out.
\<close>

definition jordan_sizes :: "ProductSize list" where
  "jordan_sizes =
     [\<lparr>ps_id = ''s-1'', ps_product_id = ''jordan'', ps_size = ''1-42'', ps_price = 180,
       ps_status = ''Skladom''\<rparr>,
      \<lparr>ps_id = ''s-2'', ps_product_id = ''jordan-1'', ps_size = ''42'', ps_price = 200,
       ps_status = Vypredane\<rparr>]"

definition yeezy_sizes :: "ProductSize list" where
  "yeezy_sizes =
     [\<lparr>ps_id = ''y-42'', ps_product_id = ''adidas-yeezy-350'', ps_size = ''42'', ps_price = 260,
       ps_status = ''Skladom''\<rparr>,
      \<lparr>ps_id = ''y-43'', ps_product_id = ''adidas-yeezy-350'', ps_size = ''43'', ps_price = 265,
       ps_status = Vypredane\<rparr>]"

text \<open>A listing of the seller dashboard with the given id, product, size and price.\<close>

definition dashboard_listing :: "string \<Rightarrow> string \<Rightarrow> string \<Rightarrow> real \<Rightarrow> Product" where
  "dashboard_listing i pid sz p =
     \<lparr>dp_id = i, dp_name = pid, dp_size = sz, dp_price = p, dp_image_url = None,
      dp_original_price = None, dp_product_id = pid, dp_user_id = ''seller-1'', dp_payout = 0,
      dp_sku = None\<rparr>"

definition dashboard0 :: dashboard where
  "dashboard0 = \<lparr>d_products = [], d_marketPrices = Map.empty, d_error = None\<rparr>"

section \<open>Properties\<close>

subsection \<open>The payout calculator\<close>

text \<open>
  Claim C1. For every price \<open>\<ge> 0\<close>, fee percentage between 0 and 1 and fixed fee
  \<open>\<ge> 0\<close>, \<^verbatim>\<open>calculatePayout\<close> returns \<open>price * (1 - feePercent) - feeFixed\<close>, which is
  the price less the percentage fee and less the fixed fee; and
  \<^verbatim>\<open>calculatePayout(100, 0.2, 5) = 75\<close>, \<^verbatim>\<open>calculatePayout(20, 0.2, 5) = 11\<close>.
\<close>

theorem calculatePayout_formula:
  assumes "0 \<le> price" and "0 \<le> feePercent" and "feePercent \<le> 1" and "0 \<le> feeFixed"
  shows "calculatePayout price feePercent feeFixed = price * (1 - feePercent) - feeFixed
       \<and> calculatePayout price feePercent feeFixed = payout_formula price feePercent feeFixed
       \<and> calculatePayout 100 0.2 5 = 75
       \<and> calculatePayout 20 0.2 5 = 11"
proof -
  have "price * (1 - feePercent) = price - price * feePercent"
    by (simp add: right_diff_distrib)
  then show ?thesis
    by (simp add: calculatePayout_def payout_formula_def)
qed

theorem calculatePayout_formula_witness:
  "(0::real) \<le> 50 \<and> (0::real) \<le> 1 / 10 \<and> (1::real) / 10 \<le> 1 \<and> (0::real) \<le> 2
   \<and> calculatePayout 50 (1 / 10) 2 = 50 * (1 - 1 / 10) - 2
   \<and> calculatePayout 50 (1 / 10) 2 = payout_formula 50 (1 / 10) 2"
  using calculatePayout_formula [of 50 "1 / 10" 2] by simp

text \<open>
  Claim C7. On the same domain the payout is monotonically increasing in the price
  (for fixed fees a larger price never gives a smaller payout) and monotonically
  decreasing in the fee percentage and in the fixed fee (for a fixed price a larger fee
  never gives a larger payout).
\<close>

theorem calculatePayout_monotone:
  assumes "0 \<le> price" and "0 \<le> feePercent" and "feePercent \<le> 1" and "0 \<le> feeFixed"
  shows "(\<forall>price'. price \<le> price' \<longrightarrow>
            calculatePayout price feePercent feeFixed \<le> calculatePayout price' feePercent feeFixed)
       \<and> (\<forall>feePercent'. feePercent \<le> feePercent' \<and> feePercent' \<le> 1 \<longrightarrow>
            calculatePayout price feePercent' feeFixed \<le> calculatePayout price feePercent feeFixed)
       \<and> (\<forall>feeFixed'. feeFixed \<le> feeFixed' \<longrightarrow>
            calculatePayout price feePercent feeFixed' \<le> calculatePayout price feePercent feeFixed)"
proof (intro conjI allI impI)
  fix price' :: real
  assume "price \<le> price'"
  moreover have "0 \<le> 1 - feePercent" using assms(3) by simp
  ultimately have "price * (1 - feePercent) \<le> price' * (1 - feePercent)"
    by (rule mult_right_mono)
  then show "calculatePayout price feePercent feeFixed \<le> calculatePayout price' feePercent feeFixed"
    by (simp add: calculatePayout_def)
next
  fix feePercent' :: real
  assume "feePercent \<le> feePercent' \<and> feePercent' \<le> 1"
  then have "1 - feePercent' \<le> 1 - feePercent" by simp
  then have "price * (1 - feePercent') \<le> price * (1 - feePercent)"
    using assms(1) by (rule mult_left_mono)
  then show "calculatePayout price feePercent' feeFixed \<le> calculatePayout price feePercent feeFixed"
    by (simp add: calculatePayout_def)
next
  fix feeFixed' :: real
  assume "feeFixed \<le> feeFixed'"
  then show "calculatePayout price feePercent feeFixed' \<le> calculatePayout price feePercent feeFixed"
    by (simp add: calculatePayout_def)
qed

theorem calculatePayout_monotone_witness:
  "(0::real) \<le> 100 \<and> (0::real) \<le> 1 / 5 \<and> (1::real) / 5 \<le> 1 \<and> (0::real) \<le> 5
   \<and> calculatePayout 100 (1 / 5) 5 \<le> calculatePayout 200 (1 / 5) 5
   \<and> calculatePayout 100 (1 / 2) 5 \<le> calculatePayout 100 (1 / 5) 5
   \<and> calculatePayout 100 (1 / 5) 8 \<le> calculatePayout 100 (1 / 5) 5"
proof -
  have dom: "(0::real) \<le> 100" "(0::real) \<le> 1 / 5" "(1::real) / 5 \<le> 1" "(0::real) \<le> 5"
    by simp_all
  have price_step: "(100::real) \<le> 200" by simp
  have percent_step: "(1::real) / 5 \<le> 1 / 2 \<and> (1::real) / 2 \<le> 1" by simp
  have fixed_step: "(5::real) \<le> 8" by simp
  from calculatePayout_monotone [OF dom] price_step percent_step fixed_step dom
  show ?thesis by blast
qed

text \<open>
  Claim C8. The payout has no floor at zero: \<^verbatim>\<open>calculatePayout(10, 0.5, 8) = -3\<close>, so
  there are non-negative inputs whose payout is negative, and it is returned as it is.
\<close>

theorem calculatePayout_no_floor:
  "calculatePayout 10 0.5 8 = - 3
   \<and> (\<exists>price feePercent feeFixed.
         0 \<le> price \<and> 0 \<le> feePercent \<and> feePercent \<le> 1 \<and> 0 \<le> feeFixed
         \<and> calculatePayout price feePercent feeFixed < 0)"
proof
  show first: "calculatePayout 10 0.5 8 = - 3"
    by (simp add: calculatePayout_def)
  have "(0::real) \<le> 10 \<and> (0::real) \<le> 0.5 \<and> (0.5::real) \<le> 1 \<and> (0::real) \<le> 8
        \<and> calculatePayout 10 0.5 8 < 0"
    using first by simp
  then show "\<exists>price feePercent feeFixed.
         0 \<le> price \<and> 0 \<le> feePercent \<and> feePercent \<le> 1 \<and> 0 \<le> feeFixed
         \<and> calculatePayout price feePercent feeFixed < 0"
    by blast
qed

subsection \<open>The fee provider\<close>

lemma getFees_cached: "cachedSettings m = Some s \<Longrightarrow> getFees reply m = (s, m)"
  by (simp add: getFees_def)

lemma getFees_row:
  "cachedSettings m = None \<Longrightarrow>
   getFees (Response (Some row) None) m =
     (\<lparr>fee_percent = fee_percent row, fee_fixed = fee_fixed row\<rparr>,
      m\<lparr>queries := queries m + 1,
        cachedSettings := Some \<lparr>fee_percent = fee_percent row, fee_fixed = fee_fixed row\<rparr>\<rparr>)"
  by (simp add: getFees_def Let_def)

lemma getFees_failed:
  "cachedSettings m = None \<Longrightarrow> fetch_failed reply \<Longrightarrow>
   fst (getFees reply m) = \<lparr>fee_percent = 0.2, fee_fixed = 5\<rparr>
   \<and> cachedSettings (snd (getFees reply m)) = None
   \<and> queries (snd (getFees reply m)) = queries m + 1"
  by (cases reply rule: fetch_failed.cases) (simp_all add: getFees_def Let_def)

text \<open>
  Claim C3, as amended. Whenever \<^verbatim>\<open>getFees()\<close> is called twice and the first call
  found a cached value or fetched a settings row, the second call returns the value of
  the first and leaves the module as it was (no query is sent), whatever the backend
  would answer by then.
\<close>

theorem getFees_cache_hit:
  assumes "cachedSettings m \<noteq> None \<or> \<not> fetch_failed reply1"
  shows "fst (getFees reply2 (snd (getFees reply1 m))) = fst (getFees reply1 m)
       \<and> snd (getFees reply2 (snd (getFees reply1 m))) = snd (getFees reply1 m)"
proof (cases "cachedSettings m")
  case (Some s)
  then show ?thesis by (simp add: getFees_cached)
next
  case None
  with assms have "\<not> fetch_failed reply1" by simp
  then obtain row where "reply1 = Response (Some row) None"
    by (cases reply1 rule: fetch_failed.cases) simp_all
  with None show ?thesis
    by (simp add: getFees_row getFees_cached)
qed

theorem getFees_cache_hit_witness:
  "\<not> fetch_failed (Response (Some \<lparr>fee_percent = 0.1, fee_fixed = 3\<rparr>) None)
   \<and> fst (getFees (Response (Some \<lparr>fee_percent = 0.5, fee_fixed = 9\<rparr>) None)
            (snd (getFees (Response (Some \<lparr>fee_percent = 0.1, fee_fixed = 3\<rparr>) None) no_settings)))
       = \<lparr>fee_percent = 0.1, fee_fixed = 3\<rparr>
   \<and> queries (snd (getFees (Response (Some \<lparr>fee_percent = 0.5, fee_fixed = 9\<rparr>) None)
            (snd (getFees (Response (Some \<lparr>fee_percent = 0.1, fee_fixed = 3\<rparr>) None) no_settings)))) = 1"
  using getFees_cache_hit [of no_settings "Response (Some \<lparr>fee_percent = 0.1, fee_fixed = 3\<rparr>) None"
      "Response (Some \<lparr>fee_percent = 0.5, fee_fixed = 9\<rparr>) None"]
  by (simp add: getFees_def no_settings_def Let_def)

text \<open>
  Claim C3 as stated fails when the first call finds the settings table empty: it
  returns the default and caches nothing, so the second call sends a second query and
  returns the row that is there by then.
\<close>

theorem getFees_second_call_counterexample:
  "fst (getFees (Response None (Some \<lparr>code = PGRST116, message = ''no single row''\<rparr>)) no_settings)
     = \<lparr>fee_percent = 0.2, fee_fixed = 5\<rparr>
   \<and> fst (getFees (Response (Some \<lparr>fee_percent = 0.1, fee_fixed = 3\<rparr>) None)
            (snd (getFees (Response None (Some \<lparr>code = PGRST116, message = ''no single row''\<rparr>)) no_settings)))
     = \<lparr>fee_percent = 0.1, fee_fixed = 3\<rparr>
   \<and> queries (snd (getFees (Response None (Some \<lparr>code = PGRST116, message = ''no single row''\<rparr>)) no_settings)) = 1
   \<and> queries (snd (getFees (Response (Some \<lparr>fee_percent = 0.1, fee_fixed = 3\<rparr>) None)
            (snd (getFees (Response None (Some \<lparr>code = PGRST116, message = ''no single row''\<rparr>)) no_settings)))) = 2"
  by (simp add: getFees_def no_settings_def Let_def)

text \<open>
  Claim C4. Whenever the \<^verbatim>\<open>admin_settings\<close> fetch errors or returns no row,
  \<^verbatim>\<open>getFees()\<close> returns exactly \<open>{fee_percent: 0.2, fee_fixed: 5}\<close> and the cache
  stays empty, so the call that follows sends the query again, whatever it is answered.
\<close>

theorem getFees_fallback_not_cached:
  assumes "cachedSettings m = None" and "fetch_failed reply"
  shows "fst (getFees reply m) = \<lparr>fee_percent = 0.2, fee_fixed = 5\<rparr>
       \<and> cachedSettings (snd (getFees reply m)) = None
       \<and> queries (snd (getFees reply m)) = queries m + 1
       \<and> (\<forall>reply'. queries (snd (getFees reply' (snd (getFees reply m)))) = queries m + 2)"
proof -
  let ?m1 = "snd (getFees reply m)"
  from assms have first: "fst (getFees reply m) = \<lparr>fee_percent = 0.2, fee_fixed = 5\<rparr>"
    and empty: "cachedSettings ?m1 = None" and sent: "queries ?m1 = queries m + 1"
    using getFees_failed by blast+
  have "queries (snd (getFees reply' ?m1)) = queries m + 2" for reply'
  proof (cases "fetch_failed reply'")
    case True
    with empty sent show ?thesis using getFees_failed [of ?m1 reply'] by simp
  next
    case False
    then obtain row where "reply' = Response (Some row) None"
      by (cases reply' rule: fetch_failed.cases) simp_all
    with empty sent show ?thesis by (simp add: getFees_row)
  qed
  with first empty sent show ?thesis by blast
qed

theorem getFees_fallback_not_cached_witness:
  "cachedSettings no_settings = None
   \<and> fetch_failed (Response None (None :: PostgrestError option) :: AdminSettings response)
   \<and> fst (getFees (Response None None) no_settings) = \<lparr>fee_percent = 0.2, fee_fixed = 5\<rparr>
   \<and> cachedSettings (snd (getFees (Response None None) no_settings)) = None
   \<and> queries (snd (getFees (Rejected \<lparr>code = ''500'', message = ''unreachable''\<rparr>)
                      (snd (getFees (Response None None) no_settings)))) = 2"
  using getFees_fallback_not_cached [of no_settings "Response None None"]
  by (simp add: no_settings_def)

subsection \<open>The admin action that turns a listing into a sale\<close>

text \<open>
  Claim C5. For any listing, \<^verbatim>\<open>handleCreateSale\<close> first sends the insert of a sale with
  status \<^verbatim>\<open>completed\<close> whose user, product, name, size, price, image and payout are
  those of the listing and whose \<^verbatim>\<open>original_product_id\<close> is the listing's id, and
  sends the delete of the listing only after the insert succeeded. If the delete then
  fails, the sale stays inserted and the listing stays in its table (nothing is rolled
  back); the page shows an error and no success message.
\<close>

theorem handleCreateSale_insert_then_delete:
  fixes product :: UserProduct
  defines "sale \<equiv>
     \<lparr>us_user_id = up_user_id product, us_product_id = up_product_id product,
      us_name = up_name product, us_size = up_size product, us_price = up_price product,
      us_image_url = up_image_url product, us_payout = up_payout product,
      us_status = ''completed'', us_original_product_id = up_id product\<rparr>"
  shows "requests (fst (handleCreateSale product saleError deleteError (db, st))) =
           requests db @ InsertSale sale #
             (case saleError of None \<Rightarrow> [DeleteProduct (up_id product)] | Some e \<Rightarrow> [])
       \<and> (saleError = None \<and> deleteError \<noteq> None \<longrightarrow>
            user_sales (fst (handleCreateSale product saleError deleteError (db, st))) =
              user_sales db @ [sale]
            \<and> db_user_products (fst (handleCreateSale product saleError deleteError (db, st))) =
              db_user_products db
            \<and> a_error (snd (handleCreateSale product saleError deleteError (db, st))) \<noteq> None
            \<and> successMessage (snd (handleCreateSale product saleError deleteError (db, st))) = None)
       \<and> (saleError = None \<and> deleteError = None \<longrightarrow>
            user_sales (fst (handleCreateSale product saleError deleteError (db, st))) =
              user_sales db @ [sale]
            \<and> db_user_products (fst (handleCreateSale product saleError deleteError (db, st))) =
              filter (\<lambda>p. up_id p \<noteq> up_id product) (db_user_products db))
       \<and> (saleError \<noteq> None \<longrightarrow>
            user_sales (fst (handleCreateSale product saleError deleteError (db, st))) = user_sales db
            \<and> db_user_products (fst (handleCreateSale product saleError deleteError (db, st))) =
              db_user_products db)"
  unfolding sale_def
  by (cases saleError; cases deleteError) (simp_all add: handleCreateSale_def Let_def)

theorem handleCreateSale_insert_then_delete_witness:
  "user_sales (fst (handleCreateSale listing_A None
        (Some \<lparr>code = ''42501'', message = ''permission denied''\<rparr>) (admin_db0, admin_page0))) =
     [\<lparr>us_user_id = ''seller-1'', us_product_id = ''nike-air-max-90'',
       us_name = ''Nike Air Max 90'', us_size = ''42'', us_price = 130, us_image_url = None,
       us_payout = 99, us_status = ''completed'', us_original_product_id = ''listing-1''\<rparr>]
   \<and> db_user_products (fst (handleCreateSale listing_A None
        (Some \<lparr>code = ''42501'', message = ''permission denied''\<rparr>) (admin_db0, admin_page0))) =
     [listing_A]
   \<and> db_user_products (fst (handleCreateSale listing_A None None (admin_db0, admin_page0))) = []
   \<and> user_sales (fst (handleCreateSale listing_A
        (Some \<lparr>code = ''42501'', message = ''permission denied''\<rparr>) None (admin_db0, admin_page0))) = []"
  using handleCreateSale_insert_then_delete [of listing_A None
      "Some \<lparr>code = ''42501'', message = ''permission denied''\<rparr>" admin_db0 admin_page0]
    handleCreateSale_insert_then_delete [of listing_A None None admin_db0 admin_page0]
    handleCreateSale_insert_then_delete [of listing_A
      "Some \<lparr>code = ''42501'', message = ''permission denied''\<rparr>" None admin_db0 admin_page0]
  by (simp add: listing_A_def admin_db0_def)

subsection \<open>The no-row error code\<close>

text \<open>
  Claim C9. A reply whose error has the code \<^verbatim>\<open>PGRST116\<close> is handled as the reply
  with no row and no error is: the admin check leaves the user a non-admin and writes
  nothing with \<^verbatim>\<open>console.error\<close>, and the profile load keeps the profile it had, with
  the email of the signed-in user, and writes nothing with \<^verbatim>\<open>console.error\<close>. An error
  with any other code is written with \<^verbatim>\<open>console.error\<close> by both, and the admin check
  leaves the user a non-admin. The page's notice that the user has no admin privileges
  is set for the code \<^verbatim>\<open>PGRST116\<close> exactly as for the empty reply, and is not set
  for another code.
\<close>

theorem no_row_code_is_benign:
  "(code e = PGRST116 \<longrightarrow>
      checkAdminStatus (Some uid) (Response None (Some e)) st =
        checkAdminStatus (Some uid) (Response None None) st
      \<and> isAdmin (checkAdminStatus (Some uid) (Response None (Some e)) st) = False
      \<and> a_console (checkAdminStatus (Some uid) (Response None (Some e)) st) = a_console st
      \<and> a_error (checkAdminStatus (Some uid) (Response None (Some e)) st) =
        Some ''You do not have admin privileges.''
      \<and> getProfile (Some u) (Response None (Some e)) pst =
        getProfile (Some u) (Response None None) pst
      \<and> p_console (getProfile (Some u) (Response None (Some e)) pst) = p_console pst
      \<and> profile (getProfile (Some u) (Response None (Some e)) pst) =
        (profile pst)\<lparr>email := Some (or_else (user_email u) [])\<rparr>)
   \<and> (code e \<noteq> PGRST116 \<longrightarrow>
      isAdmin (checkAdminStatus (Some uid) (Response adminData (Some e)) st) = False
      \<and> a_console (checkAdminStatus (Some uid) (Response adminData (Some e)) st) = a_console st @ [e]
      \<and> a_error (checkAdminStatus (Some uid) (Response adminData (Some e)) st) = a_error st
      \<and> p_console (getProfile (Some u) (Response profileData (Some e)) pst) = p_console pst @ [e])"
proof (intro conjI impI)
  assume benign: "code e = PGRST116"
  then show "checkAdminStatus (Some uid) (Response None (Some e)) st =
      checkAdminStatus (Some uid) (Response None None) st"
    and "isAdmin (checkAdminStatus (Some uid) (Response None (Some e)) st) = False"
    and "a_console (checkAdminStatus (Some uid) (Response None (Some e)) st) = a_console st"
    and "a_error (checkAdminStatus (Some uid) (Response None (Some e)) st) =
      Some ''You do not have admin privileges.''"
    by (simp_all add: checkAdminStatus_def)
  from benign show "getProfile (Some u) (Response None (Some e)) pst =
      getProfile (Some u) (Response None None) pst"
    and "p_console (getProfile (Some u) (Response None (Some e)) pst) = p_console pst"
    and "profile (getProfile (Some u) (Response None (Some e)) pst) =
      (profile pst)\<lparr>email := Some (or_else (user_email u) [])\<rparr>"
    by (simp_all add: getProfile_def Let_def)
next
  assume failure: "code e \<noteq> PGRST116"
  then show "isAdmin (checkAdminStatus (Some uid) (Response adminData (Some e)) st) = False"
    and "a_console (checkAdminStatus (Some uid) (Response adminData (Some e)) st) = a_console st @ [e]"
    and "a_error (checkAdminStatus (Some uid) (Response adminData (Some e)) st) = a_error st"
    by (simp_all add: checkAdminStatus_def)
  from failure show "p_console (getProfile (Some u) (Response profileData (Some e)) pst) =
      p_console pst @ [e]"
    by (cases profileData) (simp_all add: getProfile_def Let_def)
qed

theorem no_row_code_is_benign_witness:
  "isAdmin (checkAdminStatus (Some ''seller-1'')
      (Response None (Some \<lparr>code = ''PGRST116'', message = ''no single row''\<rparr>)) admin_page_loading) = False
   \<and> a_console (checkAdminStatus (Some ''seller-1'')
      (Response None (Some \<lparr>code = ''PGRST116'', message = ''no single row''\<rparr>)) admin_page_loading) = []
   \<and> p_console (getProfile (Some seller)
      (Response None (Some \<lparr>code = ''PGRST116'', message = ''no single row''\<rparr>)) profile_page_loading) = []
   \<and> profile (getProfile (Some seller)
      (Response None (Some \<lparr>code = ''PGRST116'', message = ''no single row''\<rparr>)) profile_page_loading) =
      initial_profile\<lparr>email := Some ''seller@example.com''\<rparr>
   \<and> a_console (checkAdminStatus (Some ''seller-1'')
      (Response None (Some \<lparr>code = ''42501'', message = ''permission denied''\<rparr>)) admin_page_loading) =
      [\<lparr>code = ''42501'', message = ''permission denied''\<rparr>]
   \<and> p_console (getProfile (Some seller)
      (Response None (Some \<lparr>code = ''42501'', message = ''permission denied''\<rparr>)) profile_page_loading) =
      [\<lparr>code = ''42501'', message = ''permission denied''\<rparr>]"
  using no_row_code_is_benign [of "\<lparr>code = ''PGRST116'', message = ''no single row''\<rparr>"
      "''seller-1''" admin_page_loading seller profile_page_loading None None]
    no_row_code_is_benign [of "\<lparr>code = ''42501'', message = ''permission denied''\<rparr>"
      "''seller-1''" admin_page_loading seller profile_page_loading None None]
  by (simp add: PGRST116_def admin_page_loading_def profile_page_loading_def seller_def or_else_def
      checkAdminStatus_def getProfile_def)

subsection \<open>The guard of the add-listing submission\<close>

text \<open>
  Claim C10. The add-listing submission sends an insert only when a product is selected,
  a size is selected and the entered price parses to a number greater than 0. For every
  input that violates one of these, nothing is sent and nothing changes except that the
  error message of the dialog is set. With the three conditions and a signed-in user,
  one insert is sent.
\<close>

theorem handleSubmit_guard:
  "(inserts (handleSubmit numericNewPrice fees sizes user newProductId insertError w) \<noteq> inserts w
      \<longrightarrow> submittable (modal w) numericNewPrice)
   \<and> (\<not> submittable (modal w) numericNewPrice \<longrightarrow>
        handleSubmit numericNewPrice fees sizes user newProductId insertError w =
          w\<lparr>modal := (modal w)\<lparr>m_error := Some InvalidForm\<rparr>\<rparr>)
   \<and> (submittable (modal w) numericNewPrice \<and> user \<noteq> None \<longrightarrow>
        length (inserts (handleSubmit numericNewPrice fees sizes user newProductId insertError w)) =
          length (inserts w) + 1
        \<and> m_error (modal (handleSubmit numericNewPrice fees sizes user newProductId insertError w))
            \<noteq> Some InvalidForm)"
  by (cases "selectedProduct (modal w)"; cases numericNewPrice; cases user; cases insertError)
    (simp_all add: handleSubmit_def submittable_def Let_def)

theorem handleSubmit_guard_witness:
  "\<not> submittable (modal (add_world0 ''42'')) (Some 0)
   \<and> handleSubmit (Some 0) \<lparr>fee_percent = 0.2, fee_fixed = 5\<rparr> air_max_sizes (Some ''seller-1'')
        ''uuid-1'' None (add_world0 ''42'') =
      (add_world0 ''42'')\<lparr>modal := (modal (add_world0 ''42''))\<lparr>m_error := Some InvalidForm\<rparr>\<rparr>
   \<and> submittable (modal (add_world0 ''42'')) (Some 120)
   \<and> length (inserts (handleSubmit (Some 120) \<lparr>fee_percent = 0.2, fee_fixed = 5\<rparr> air_max_sizes
        (Some ''seller-1'') ''uuid-1'' None (add_world0 ''42''))) = 1"
  using handleSubmit_guard [of "Some 0" "\<lparr>fee_percent = 0.2, fee_fixed = 5\<rparr>" air_max_sizes
      "Some ''seller-1''" "''uuid-1''" None "add_world0 ''42''"]
    handleSubmit_guard [of "Some 120" "\<lparr>fee_percent = 0.2, fee_fixed = 5\<rparr>" air_max_sizes
      "Some ''seller-1''" "''uuid-1''" None "add_world0 ''42''"]
  by (simp add: submittable_def add_world0_def)

subsection \<open>The price-comparison indicator\<close>

text \<open>
  Claim C2, as amended. On the dashboard, for a listing whose market price is present
  and not zero: a seller price below the market price is flagged green with the
  difference shown as savings; a seller price equal to it is flagged green with no
  difference shown; a seller price above it is flagged red with the difference shown as
  a markup. In the add-listing dialog, for a positive entered price and a selected size
  of the catalogue: a price below the size's price gets the green note, a price equal to
  it gets no colour, note or icon, and a price above it gets the red warning. On neither
  screen is a price equal to the market price shown as a markup.
\<close>

theorem price_indicator_policy:
  "(m \<noteq> 0 \<longrightarrow>
      (price < m \<longrightarrow> dashboard_price_view price (Some m) =
         \<lparr>priceColor = ''text-green-600'', priceStatus = Minus (m - price), priceIndicator = GreenCircle\<rparr>)
    \<and> (price = m \<longrightarrow> dashboard_price_view price (Some m) =
         \<lparr>priceColor = ''text-green-600'', priceStatus = NoStatus, priceIndicator = GreenCircle\<rparr>)
    \<and> (price > m \<longrightarrow> dashboard_price_view price (Some m) =
         \<lparr>priceColor = ''text-red-600'', priceStatus = Plus (price - m), priceIndicator = RedCircle\<rparr>))
   \<and> (0 < entered \<and> find (\<lambda>s. ps_size s = sel) sizes = Some row \<longrightarrow>
      (entered < ps_price row \<longrightarrow> modal_price_view (Some entered) (recommendedPrice sizes sel) =
         \<lparr>m_priceColor = ''text-green-600'', priceMessage = NewLowest entered, priceIcon = CheckIcon\<rparr>)
    \<and> (entered = ps_price row \<longrightarrow> modal_price_view (Some entered) (recommendedPrice sizes sel) =
         \<lparr>m_priceColor = ''text-gray-700'', priceMessage = NoMessage, priceIcon = NoIcon\<rparr>)
    \<and> (entered > ps_price row \<longrightarrow> modal_price_view (Some entered) (recommendedPrice sizes sel) =
         \<lparr>m_priceColor = ''text-red-600'', priceMessage = HigherThanLowest,
          priceIcon = ExclamationTriangleIcon\<rparr>))"
proof (intro conjI impI)
  assume "m \<noteq> 0"
  then show "price < m \<Longrightarrow> dashboard_price_view price (Some m) =
      \<lparr>priceColor = ''text-green-600'', priceStatus = Minus (m - price), priceIndicator = GreenCircle\<rparr>"
    and "price = m \<Longrightarrow> dashboard_price_view price (Some m) =
      \<lparr>priceColor = ''text-green-600'', priceStatus = NoStatus, priceIndicator = GreenCircle\<rparr>"
    and "price > m \<Longrightarrow> dashboard_price_view price (Some m) =
      \<lparr>priceColor = ''text-red-600'', priceStatus = Plus (price - m), priceIndicator = RedCircle\<rparr>"
    by (simp_all add: dashboard_price_view_def)
next
  assume "0 < entered \<and> find (\<lambda>s. ps_size s = sel) sizes = Some row"
  then have positive: "0 < entered" and market: "recommendedPrice sizes sel = ps_price row"
    by (simp_all add: recommendedPrice_def)
  from positive show "entered < ps_price row \<Longrightarrow>
      modal_price_view (Some entered) (recommendedPrice sizes sel) =
      \<lparr>m_priceColor = ''text-green-600'', priceMessage = NewLowest entered, priceIcon = CheckIcon\<rparr>"
    and "entered = ps_price row \<Longrightarrow>
      modal_price_view (Some entered) (recommendedPrice sizes sel) =
      \<lparr>m_priceColor = ''text-gray-700'', priceMessage = NoMessage, priceIcon = NoIcon\<rparr>"
    and "entered > ps_price row \<Longrightarrow>
      modal_price_view (Some entered) (recommendedPrice sizes sel) =
      \<lparr>m_priceColor = ''text-red-600'', priceMessage = HigherThanLowest,
       priceIcon = ExclamationTriangleIcon\<rparr>"
    by (simp_all add: modal_price_view_def market)
qed

theorem price_indicator_policy_witness:
  "dashboard_price_view 120 (Some 130) =
     \<lparr>priceColor = ''text-green-600'', priceStatus = Minus 10, priceIndicator = GreenCircle\<rparr>
   \<and> dashboard_price_view 140 (Some 130) =
     \<lparr>priceColor = ''text-red-600'', priceStatus = Plus 10, priceIndicator = RedCircle\<rparr>
   \<and> modal_price_view (Some 120) (recommendedPrice air_max_sizes ''42'') =
     \<lparr>m_priceColor = ''text-green-600'', priceMessage = NewLowest 120, priceIcon = CheckIcon\<rparr>
   \<and> modal_price_view (Some 140) (recommendedPrice air_max_sizes ''42'') =
     \<lparr>m_priceColor = ''text-red-600'', priceMessage = HigherThanLowest,
      priceIcon = ExclamationTriangleIcon\<rparr>"
  using price_indicator_policy [of 130 120 120 "''42''" air_max_sizes "air_max_sizes ! 1"]
    price_indicator_policy [of 130 140 140 "''42''" air_max_sizes "air_max_sizes ! 1"]
  by (simp add: air_max_sizes_def)

text \<open>
  Claim C2 as stated fails where the seller price equals the market price: the
  dashboard flags the price green (so it is not neutral) and shows no savings, and the
  add-listing dialog shows nothing (so it is not flagged as favourable).
\<close>

theorem price_equal_to_market_counterexample:
  "dashboard_price_view 130 (Some 130) =
     \<lparr>priceColor = ''text-green-600'', priceStatus = NoStatus, priceIndicator = GreenCircle\<rparr>
   \<and> modal_price_view (Some 130) 130 =
     \<lparr>m_priceColor = ''text-gray-700'', priceMessage = NoMessage, priceIcon = NoIcon\<rparr>"
  by (simp add: dashboard_price_view_def modal_price_view_def)

subsection \<open>The market price of a listing\<close>

text \<open>
  Claim C6 says that the market price a screen uses for a product and size is the lowest
  in-stock price of that pair, and that there is none when the pair has no in-stock row.
  On the dashboard it fails for two listings whose keys \<^verbatim>\<open>product_id-size\<close> are the
  same text: the listing of product \<^verbatim>\<open>jordan-1\<close> in size \<^verbatim>\<open>42\<close> has no in-stock row,
  and the dashboard uses for it the price 180 of product \<^verbatim>\<open>jordan\<close> in size
  \<^verbatim>\<open>1-42\<close>.
\<close>

theorem market_price_of_other_listing:
  "in_stock_rows jordan_sizes ''jordan-1'' ''42'' = []
   \<and> currentMarketPrice
        (fetchProducts
           (Response (Some [dashboard_listing ''l-1'' ''jordan'' ''1-42'' 190,
                            dashboard_listing ''l-2'' ''jordan-1'' ''42'' 210]) None)
           (market_price_query jordan_sizes) dashboard0)
        (dashboard_listing ''l-2'' ''jordan-1'' ''42'' 210) = Some 180"
  by (simp add: in_stock_rows_def jordan_sizes_def Vypredane_def
      currentMarketPrice_def fetchProducts_def dashboard_listing_def dashboard0_def
      market_price_query_def single_def price_key_def)

text \<open>
  The edit-listing dialog keeps the market price it fetched before when the fetch for
  the next listing finds no in-stock row: after size 42 (in stock at 260), size 43 (sold
  out) still shows 260.
\<close>

lemma edit_dialog_keeps_previous_market_price:
  "in_stock_rows yeezy_sizes ''adidas-yeezy-350'' ''43'' = []
   \<and> fetchCurrentMarketPrice (market_price_query yeezy_sizes ''adidas-yeezy-350'' ''43'')
        (fetchCurrentMarketPrice (market_price_query yeezy_sizes ''adidas-yeezy-350'' ''42'') None)
      = Some 260"
  by (simp add: in_stock_rows_def yeezy_sizes_def Vypredane_def market_price_query_def single_def
      fetchCurrentMarketPrice_def)

text \<open>
  What does hold. The reply to the query is the lowest in-stock price of the pair, and
  the no-row error when the pair has no in-stock row.
\<close>

lemma hd_sorted_is_Min: "sorted ys \<Longrightarrow> ys \<noteq> [] \<Longrightarrow> hd ys = Min (set ys)"
  by (cases ys) (auto intro!: Min_eqI [symmetric])

lemma market_price_query_Min:
  "market_price_query table pid sz =
     (if in_stock_rows table pid sz = []
      then Response None (Some \<lparr>code = PGRST116, message = ''no single row''\<rparr>)
      else Response (Some (Min (ps_price ` set (in_stock_rows table pid sz)))) None)"
proof (cases "in_stock_rows table pid sz = []")
  case True
  then show ?thesis by (simp add: market_price_query_def single_def)
next
  case False
  let ?ys = "map ps_price (sort_key ps_price (in_stock_rows table pid sz))"
  have ne: "?ys \<noteq> []" using False by (metis length_sort length_0_conv map_is_Nil_conv)
  have "sorted ?ys" by simp
  then have "hd ?ys = Min (set ?ys)" using ne by (rule hd_sorted_is_Min)
  also have "set ?ys = ps_price ` set (in_stock_rows table pid sz)" by simp
  finally have hd: "hd ?ys = Min (ps_price ` set (in_stock_rows table pid sz))" .
  from ne obtain y rest where ys: "?ys = y # rest" by (cases ?ys) auto
  have "map ps_price (take 1 (sort_key ps_price (in_stock_rows table pid sz))) = take 1 ?ys"
    by (simp add: take_map)
  also have "\<dots> = [hd ?ys]" using ys by simp
  finally show ?thesis using False hd by (simp add: market_price_query_def single_def)
qed

text \<open>
  The edit-listing dialog that has no market price yet takes exactly that of the query.
\<close>

lemma fetchCurrentMarketPrice_first:
  "fetchCurrentMarketPrice (market_price_query table pid sz) None =
     (if in_stock_rows table pid sz = [] then None
      else Some (Min (ps_price ` set (in_stock_rows table pid sz))))"
  by (simp add: market_price_query_Min fetchCurrentMarketPrice_def)

text \<open>
  The dashboard's map holds, under the key of a pair, the data of the reply for that
  pair, as long as no listing of another pair has the same key.
\<close>

lemma fetchMarketPrices_lookup:
  assumes "\<forall>q\<in>set ps. price_key (dp_product_id q) (dp_size q) = price_key pid sz
             \<longrightarrow> dp_product_id q = pid \<and> dp_size q = sz"
  shows "fetchMarketPrices backend ps pm (price_key pid sz) =
           (if \<exists>q\<in>set ps. dp_product_id q = pid \<and> dp_size q = sz
            then (case reply_data (backend pid sz) of Some price \<Rightarrow> Some price
                  | None \<Rightarrow> pm (price_key pid sz))
            else pm (price_key pid sz))"
  using assms
proof (induction ps arbitrary: pm)
  case Nil
  then show ?case by simp
next
  case (Cons q rest)
  show ?case
  proof (cases "dp_product_id q = pid \<and> dp_size q = sz")
    case True
    with Cons show ?thesis
      by (cases "backend pid sz" rule: reply_data.cases)
        (auto split: option.splits)
  next
    case False
    with Cons.prems have "price_key (dp_product_id q) (dp_size q) \<noteq> price_key pid sz"
      by auto
    with Cons False show ?thesis
      by (cases "backend (dp_product_id q) (dp_size q)" rule: reply_data.cases)
        (auto split: option.splits)
  qed
qed

lemma dashboard_market_price:
  assumes "product \<in> set validProducts"
    and "\<forall>q\<in>set validProducts.
           price_key (dp_product_id q) (dp_size q) =
             price_key (dp_product_id product) (dp_size product)
           \<longrightarrow> dp_product_id q = dp_product_id product \<and> dp_size q = dp_size product"
  shows "currentMarketPrice
           (fetchProducts (Response (Some validProducts) None) (market_price_query table) st) product =
         (if in_stock_rows table (dp_product_id product) (dp_size product) = [] then None
          else Some (Min (ps_price ` set (in_stock_rows table (dp_product_id product) (dp_size product)))))"
proof -
  have "\<exists>q\<in>set validProducts.
          dp_product_id q = dp_product_id product \<and> dp_size q = dp_size product"
    using assms(1) by blast
  then show ?thesis
    using fetchMarketPrices_lookup [OF assms(2), of "market_price_query table" Map.empty]
    by (simp add: currentMarketPrice_def fetchProducts_def market_price_query_Min)
qed

text \<open>
  Keys are unambiguous among sizes without a hyphen, so the dashboard's market prices are
  right for a seller all of whose listings have such sizes.
\<close>

lemma price_key_unambiguous:
  assumes "CHR ''-'' \<notin> set sz" and "CHR ''-'' \<notin> set sz'"
    and "price_key pid sz = price_key pid' sz'"
  shows "pid = pid' \<and> sz = sz'"
proof -
  from assms(3) have eq: "pid @ CHR ''-'' # sz = pid' @ CHR ''-'' # sz'"
    by (simp add: price_key_def)
  then obtain us where
    "(pid = pid' @ us \<and> us @ CHR ''-'' # sz = CHR ''-'' # sz')
     \<or> (pid @ us = pid' \<and> CHR ''-'' # sz = us @ CHR ''-'' # sz')"
    by (auto simp: append_eq_append_conv2)
  then show ?thesis
  proof
    assume a: "pid = pid' @ us \<and> us @ CHR ''-'' # sz = CHR ''-'' # sz'"
    show ?thesis
    proof (cases us)
      case Nil
      with a show ?thesis by simp
    next
      case (Cons u us')
      with a have "sz' = us' @ CHR ''-'' # sz" by simp
      with assms(2) show ?thesis by simp
    qed
  next
    assume a: "pid @ us = pid' \<and> CHR ''-'' # sz = us @ CHR ''-'' # sz'"
    show ?thesis
    proof (cases us)
      case Nil
      with a show ?thesis by simp
    next
      case (Cons u us')
      with a have "sz = us' @ CHR ''-'' # sz'" by simp
      with assms(1) show ?thesis by simp
    qed
  qed
qed

lemma dashboard_market_price_plain_sizes:
  assumes "product \<in> set validProducts"
    and "\<forall>q\<in>set validProducts. CHR ''-'' \<notin> set (dp_size q)"
  shows "currentMarketPrice
           (fetchProducts (Response (Some validProducts) None) (market_price_query table) st) product =
         (if in_stock_rows table (dp_product_id product) (dp_size product) = [] then None
          else Some (Min (ps_price ` set (in_stock_rows table (dp_product_id product) (dp_size product)))))"
  using assms by (intro dashboard_market_price) (auto dest: price_key_unambiguous [rotated 2])

end
